theory Spec2Isabelle
  imports Main "HOL-Library.Sublist" "HOL-Library.Multiset"
begin

section \<open>Values and the Python operations the script applies to them\<close>

text \<open>
  The script \<^verbatim>\<open>generate_readme_from_orcid.py\<close> works on the values that
  \<^verbatim>\<open>r.json()\<close> returns: \<^verbatim>\<open>None\<close>, booleans, numbers, strings, lists and
  dictionaries with string keys. A dictionary is an association list read with
  \<open>map_of\<close> (a parsed object has distinct keys). Numbers are integers here, and a
  string is a list of code points below 256.
\<close>

datatype json =
    JNull
  | JBool bool
  | JNum int
  | JStr string
  | JList "json list"
  | JDict "(string \<times> json) list"

text \<open>The exceptions the script can meet. \<open>RequestError\<close> stands for whatever
  \<^verbatim>\<open>fetch_json\<close> raises (a network error, a bad status, a body that is not JSON).\<close>

datatype py_error = AttributeError | TypeError | ValueError | KeyError | IndexError | RequestError

fun and_then :: "py_error + 'a \<Rightarrow> ('a \<Rightarrow> py_error + 'b) \<Rightarrow> py_error + 'b" where
  "and_then (Inl e) f = Inl e"
| "and_then (Inr v) f = f v"

text \<open>Truth value testing: \<^verbatim>\<open>if v\<close>, \<^verbatim>\<open>not v\<close>, \<^verbatim>\<open>a or b\<close>.\<close>

fun truthy :: "json \<Rightarrow> bool" where
  "truthy JNull = False"
| "truthy (JBool b) = b"
| "truthy (JNum n) = (n \<noteq> 0)"
| "truthy (JStr s) = (s \<noteq> [])"
| "truthy (JList xs) = (xs \<noteq> [])"
| "truthy (JDict kvs) = (kvs \<noteq> [])"

definition py_or :: "json \<Rightarrow> json \<Rightarrow> json" where
  "py_or a b = (if truthy a then a else b)"

fun is_dict :: "json \<Rightarrow> bool" where
  "is_dict (JDict kvs) = True"
| "is_dict _ = False"

fun is_str :: "json \<Rightarrow> bool" where
  "is_str (JStr s) = True"
| "is_str _ = False"

text \<open>\<^verbatim>\<open>v.get(k, default)\<close>: only a dictionary has the method.\<close>

fun get :: "json \<Rightarrow> string \<Rightarrow> json \<Rightarrow> py_error + json" where
  "get (JDict kvs) k dflt = Inr (case map_of kvs k of None \<Rightarrow> dflt | Some v \<Rightarrow> v)"
| "get _ k dflt = Inl AttributeError"

text \<open>\<^verbatim>\<open>for x in v\<close>: a list gives its elements, a string its characters, a
  dictionary its keys; nothing else can be iterated.\<close>

fun py_iter :: "json \<Rightarrow> py_error + json list" where
  "py_iter (JList xs) = Inr xs"
| "py_iter (JStr s) = Inr (map (\<lambda>c. JStr [c]) s)"
| "py_iter (JDict kvs) = Inr (map (\<lambda>kv. JStr (fst kv)) kvs)"
| "py_iter _ = Inl TypeError"

text \<open>\<^verbatim>\<open>v[0]\<close>. The keys of a parsed object are strings, so \<^verbatim>\<open>0\<close> is never one.\<close>

fun index0 :: "json \<Rightarrow> py_error + json" where
  "index0 (JList []) = Inl IndexError"
| "index0 (JList (x # xs)) = Inr x"
| "index0 (JStr []) = Inl IndexError"
| "index0 (JStr (c # cs)) = Inr (JStr [c])"
| "index0 (JDict kvs) = Inl KeyError"
| "index0 _ = Inl TypeError"

subsection \<open>String methods\<close>

definition whitespace :: "char list" where
  "whitespace = [CHR 0x09, CHR 0x0A, CHR 0x0B, CHR 0x0C, CHR 0x0D,
                 CHR 0x1C, CHR 0x1D, CHR 0x1E, CHR 0x1F, CHR 0x20, CHR 0x85, CHR 0xA0]"

definition is_space :: "char \<Rightarrow> bool" where
  "is_space c = (c \<in> set whitespace)"

text \<open>\<^verbatim>\<open>s.strip()\<close>\<close>

definition strip :: "string \<Rightarrow> string" where
  "strip s = rev (dropWhile is_space (rev (dropWhile is_space s)))"

text \<open>\<^verbatim>\<open>s.lower()\<close> on code points below 256: A-Z and the accented capitals
  U+00C0..U+00DE (but not the multiplication sign U+00D7) move up by 32.\<close>

definition lower_char :: "char \<Rightarrow> char" where
  "lower_char c =
     (let n = (of_char c :: nat)
      in if (65 \<le> n \<and> n \<le> 90) \<or> (192 \<le> n \<and> n \<le> 222 \<and> n \<noteq> 215)
         then char_of (n + 32) else c)"

definition lower :: "string \<Rightarrow> string" where
  "lower s = map lower_char s"

text \<open>\<^verbatim>\<open>sub in s\<close>\<close>

fun contains :: "string \<Rightarrow> string \<Rightarrow> bool" where
  "contains sub [] = (sub = [])"
| "contains sub (c # cs) = (prefix sub (c # cs) \<or> contains sub cs)"

text \<open>\<^verbatim>\<open>s.replace(old, new)\<close> for a non-empty \<open>old\<close> (the script only passes
  literals): the occurrences are replaced from the left and do not overlap.\<close>

function replace :: "string \<Rightarrow> string \<Rightarrow> string \<Rightarrow> string" where
  "replace old new [] = []"
| "replace old new (c # cs) =
     (if old \<noteq> [] \<and> prefix old (c # cs)
      then new @ replace old new (drop (length old) (c # cs))
      else c # replace old new cs)"
  by pat_completeness auto
termination
  by (relation "measure (\<lambda>(old, new, s). length s)") auto

text \<open>\<^verbatim>\<open>s.split(sep, 1)\<close> for a one-character separator, and \<^verbatim>\<open>xs[1]\<close>.\<close>

definition split1 :: "char \<Rightarrow> string \<Rightarrow> string list" where
  "split1 sep s =
     (case dropWhile (\<lambda>c. c \<noteq> sep) s of
        [] \<Rightarrow> [s]
      | _ # rest \<Rightarrow> [takeWhile (\<lambda>c. c \<noteq> sep) s, rest])"

definition index1 :: "string list \<Rightarrow> py_error + string" where
  "index1 xs = (case xs of _ # x # _ \<Rightarrow> Inr x | _ \<Rightarrow> Inl IndexError)"

text \<open>\<^verbatim>\<open>v.lower()\<close> and \<^verbatim>\<open>v.strip()\<close> on a value: only a string has them.\<close>

fun str_lower :: "json \<Rightarrow> py_error + string" where
  "str_lower (JStr s) = Inr (lower s)"
| "str_lower _ = Inl AttributeError"

fun str_strip :: "json \<Rightarrow> py_error + string" where
  "str_strip (JStr s) = Inr (strip s)"
| "str_strip _ = Inl AttributeError"

section \<open>The field extractors\<close>

text \<open>\<^verbatim>\<open>extract_title\<close>, lines 34-38.\<close>

definition extract_title :: "json \<Rightarrow> py_error + json" where
  "extract_title work =
     (if \<not> truthy work then Inr (JStr '''')
      else and_then (get work ''title'' (JDict [])) (\<lambda>a.
           and_then (get (py_or a (JDict [])) ''title'' (JDict [])) (\<lambda>b.
           and_then (get b ''value'' JNull) (\<lambda>v.
           Inr (py_or v (JStr ''''))))))"

text \<open>\<^verbatim>\<open>extract_contributors\<close>, lines 40-48: the loop body, then the function.\<close>

fun contributors_loop :: "json list \<Rightarrow> json list \<Rightarrow> py_error + json list" where
  "contributors_loop [] contribs = Inr contribs"
| "contributors_loop (c # cs) contribs =
     and_then (get c ''credit-name'' JNull) (\<lambda>cn.
     and_then (get (py_or cn (JDict [])) ''value'' JNull) (\<lambda>name.
     contributors_loop cs (if truthy name then contribs @ [name] else contribs)))"

definition extract_contributors :: "json \<Rightarrow> py_error + json list" where
  "extract_contributors work =
     (if \<not> truthy work then Inr []
      else and_then (get work ''contributors'' (JDict [])) (\<lambda>a.
           and_then (get (py_or a (JDict [])) ''contributor'' (JList [])) (\<lambda>b.
           and_then (py_iter (py_or b (JList []))) (\<lambda>cs.
           contributors_loop cs []))))"

text \<open>\<^verbatim>\<open>extract_journal\<close>, lines 50-58.\<close>

definition extract_journal :: "json \<Rightarrow> py_error + json" where
  "extract_journal work =
     (if \<not> truthy work then Inr (JStr '''')
      else and_then (get work ''journal-title'' JNull) (\<lambda>a.
           and_then (get (py_or a (JDict [])) ''value'' JNull) (\<lambda>jt.
           if truthy jt then Inr jt else Inr (JStr ''''))))"

text \<open>\<^verbatim>\<open>extract_year\<close>, lines 60-70. The first block returns only when the detail
  has a year; otherwise control falls to the summary.\<close>

definition year_from_summary :: "json \<Rightarrow> py_error + json" where
  "year_from_summary summary_ws =
     (if truthy summary_ws then
        and_then (if is_dict summary_ws
                  then and_then (get summary_ws ''publication-date'' JNull)
                         (\<lambda>a. Inr (py_or a (JDict [])))
                  else Inr (JDict [])) (\<lambda>pd.
        and_then (get pd ''year'' JNull) (\<lambda>y.
        and_then (get (py_or y (JDict [])) ''value'' JNull) (\<lambda>v.
        Inr (py_or v (JStr '''')))))
      else Inr (JStr ''''))"

definition extract_year :: "json \<Rightarrow> json \<Rightarrow> py_error + json" where
  "extract_year work summary_ws =
     (if truthy work then
        and_then (get work ''publication-date'' JNull) (\<lambda>a.
        and_then (get (py_or a (JDict [])) ''year'' JNull) (\<lambda>y.
        and_then (get (py_or y (JDict [])) ''value'' JNull) (\<lambda>year.
        if truthy year then Inr year else year_from_summary summary_ws)))
      else year_from_summary summary_ws)"

text \<open>Lines 82-85 of \<^verbatim>\<open>extract_doi_and_url\<close>: what is done to the value of an
  identifier of a DOI type. \<open>val\<close> is already stripped here.\<close>

definition strip_doi_prefixes :: "string \<Rightarrow> py_error + string" where
  "strip_doi_prefixes stripped =
     (let doi = replace ''http://doi.org/'' '''' (replace ''https://doi.org/'' '''' stripped)
      in if prefix ''doi:'' doi then index1 (split1 CHR '':'' doi) else Inr doi)"

definition normalize_doi :: "json \<Rightarrow> py_error + string" where
  "normalize_doi val = and_then (str_strip val) strip_doi_prefixes"

text \<open>\<^verbatim>\<open>extract_doi_and_url\<close>, lines 72-90: one pass of the loop over the
  external identifiers, the loop, and the function. The state of the loop is the pair
  \<open>(doi, url)\<close>.\<close>

definition doi_url_step :: "json \<Rightarrow> string \<times> json \<Rightarrow> py_error + string \<times> json" where
  "doi_url_step e st =
     and_then (get e ''external-id-type'' JNull) (\<lambda>ty.
     and_then (str_lower (py_or ty (JStr ''''))) (\<lambda>t.
     and_then (get e ''external-id-value'' JNull) (\<lambda>v.
     let val = py_or v (JStr '''') in
     and_then (if t = ''doi'' \<or> contains ''doi'' t then normalize_doi val else Inr (fst st)) (\<lambda>doi.
     and_then (if \<not> truthy (snd st)
               then and_then (get e ''external-id-url'' JNull) (\<lambda>u.
                    and_then (get (py_or u (JDict [])) ''value'' JNull) (\<lambda>uv.
                    Inr (py_or uv (JStr ''''))))
               else Inr (snd st)) (\<lambda>url.
     Inr (doi, url))))))"

fun doi_url_loop :: "json list \<Rightarrow> string \<times> json \<Rightarrow> py_error + string \<times> json" where
  "doi_url_loop [] st = Inr st"
| "doi_url_loop (e # es) st = and_then (doi_url_step e st) (doi_url_loop es)"

definition extract_doi_and_url :: "json \<Rightarrow> py_error + string \<times> json" where
  "extract_doi_and_url work =
     (if \<not> truthy work then Inr ('''', JStr '''')
      else and_then (get work ''external-ids'' JNull) (\<lambda>a.
           and_then (get (py_or a (JDict [])) ''external-id'' (JList [])) (\<lambda>b.
           and_then (py_iter (py_or b (JList []))) (\<lambda>es.
           and_then (doi_url_loop es ('''', JStr '''')) (\<lambda>st.
           if \<not> truthy (snd st)
           then and_then (get work ''url'' JNull) (\<lambda>u.
                and_then (get (py_or u (JDict [])) ''value'' JNull) (\<lambda>uv.
                Inr (fst st, py_or uv (JStr ''''))))
           else Inr st)))))"

text \<open>\<^verbatim>\<open>sanitize_markdown\<close>, lines 92-95.\<close>

fun sanitize_markdown :: "json \<Rightarrow> string" where
  "sanitize_markdown (JStr text) = strip (replace [CHR 0x0A] '' '' text)"
| "sanitize_markdown _ = ''''"

text \<open>\<^verbatim>\<open>dict_safe_get\<close>, lines 97-106: the loop over the keys, then the function.
  The loop returns \<open>None\<close> where the Python returns \<open>default\<close> from inside it.\<close>

fun safe_get_loop :: "json \<Rightarrow> string list \<Rightarrow> json option" where
  "safe_get_loop cur [] = Some cur"
| "safe_get_loop cur (k # ks) =
     (case cur of
        JDict kvs \<Rightarrow> safe_get_loop (case map_of kvs k of None \<Rightarrow> JDict [] | Some v \<Rightarrow> v) ks
      | _ \<Rightarrow> None)"

definition dict_safe_get :: "json \<Rightarrow> string list \<Rightarrow> json \<Rightarrow> json" where
  "dict_safe_get d keys dflt =
     (case safe_get_loop (if is_dict d then d else JDict []) keys of
        None \<Rightarrow> dflt
      | Some cur \<Rightarrow> if is_dict cur then dflt else py_or cur dflt)"

section \<open>Assembling one row (\<^verbatim>\<open>main\<close>, lines 146-170)\<close>

record row =
  row_title :: string
  row_authors :: string
  row_journal :: string
  row_year :: json
  row_doi :: string
  row_link :: json

text \<open>Line 146: the local variable \<^verbatim>\<open>title\<close>.\<close>

definition main_title :: "json \<Rightarrow> json \<Rightarrow> py_error + string" where
  "main_title detailed ws =
     and_then (extract_title detailed) (\<lambda>t.
     Inr (sanitize_markdown
            (py_or (py_or t (dict_safe_get ws [''title'', ''title'', ''value''] (JStr '''')))
                   (dict_safe_get ws [''title''] (JStr '''')))))"

text \<open>\<^verbatim>\<open>sep.join(xs)\<close>: every item has to be a string.\<close>

fun str_items :: "json list \<Rightarrow> py_error + string list" where
  "str_items [] = Inr []"
| "str_items (JStr s # xs) = and_then (str_items xs) (\<lambda>ys. Inr (s # ys))"
| "str_items (_ # xs) = Inl TypeError"

fun join :: "string \<Rightarrow> string list \<Rightarrow> string" where
  "join sep [] = []"
| "join sep [x] = x"
| "join sep (x # y # ys) = x @ sep @ join sep (y # ys)"

text \<open>Lines 147-154: the local variables \<^verbatim>\<open>authors\<close> and \<^verbatim>\<open>authors_md\<close>.\<close>

definition main_authors :: "json \<Rightarrow> json \<Rightarrow> py_error + json list" where
  "main_authors detailed ws =
     and_then (extract_contributors detailed) (\<lambda>authors.
     if authors = [] then
       and_then (get ws ''author'' JNull) (\<lambda>a.
       and_then (if truthy a then Inr a
                 else and_then (get ws ''credit-name'' JNull) (\<lambda>b. Inr (py_or b (JStr '''')))) (\<lambda>author_str.
       if is_str author_str \<and> truthy author_str then Inr [author_str] else Inr authors))
     else Inr authors)"

definition main_authors_md :: "json \<Rightarrow> json \<Rightarrow> py_error + string" where
  "main_authors_md detailed ws =
     and_then (main_authors detailed ws) (\<lambda>authors.
     if authors \<noteq> [] then and_then (str_items authors) (\<lambda>xs. Inr (join '', '' xs)) else Inr '''')"

text \<open>Line 156: the local variable \<^verbatim>\<open>journal\<close>.\<close>

definition main_journal :: "json \<Rightarrow> json \<Rightarrow> py_error + string" where
  "main_journal detailed ws =
     and_then (extract_journal detailed) (\<lambda>j.
     Inr (sanitize_markdown (py_or j (dict_safe_get ws [''journal-title'', ''value''] (JStr '''')))))"

text \<open>Lines 159-161: \<^verbatim>\<open>doi_md\<close>, and the link derived from the DOI.\<close>

definition main_doi_md :: "string \<Rightarrow> string" where
  "main_doi_md doi = (if doi \<noteq> [] then ''['' @ doi @ ''](https://doi.org/'' @ doi @ '')'' else '''')"

definition main_link :: "string \<Rightarrow> json \<Rightarrow> json" where
  "main_link doi link = (if \<not> truthy link \<and> doi \<noteq> [] then JStr (''https://doi.org/'' @ doi) else link)"

text \<open>Lines 146-170: the row of one work, from its detail and its summary.\<close>

definition main_row :: "json \<Rightarrow> json \<Rightarrow> py_error + row" where
  "main_row detailed ws =
     and_then (main_title detailed ws) (\<lambda>title.
     and_then (main_authors_md detailed ws) (\<lambda>authors_md.
     and_then (main_journal detailed ws) (\<lambda>journal.
     and_then (extract_year detailed ws) (\<lambda>year.
     and_then (extract_doi_and_url detailed) (\<lambda>dl.
     Inr \<lparr> row_title = (if title \<noteq> [] then title else ''(no title)''),
           row_authors = authors_md,
           row_journal = journal,
           row_year = year,
           row_doi = main_doi_md (fst dl),
           row_link = main_link (fst dl) (snd dl) \<rparr>)))))"

section \<open>The loop over the groups (\<^verbatim>\<open>main\<close>, lines 128-171)\<close>

text \<open>
  The network is a parameter: \<open>fetch_work put_code\<close> is what
  \<^verbatim>\<open>fetch_json(work_url)\<close> gives for the URL built from that put-code, an exception
  or the parsed body. What the run does besides building rows is kept as a list of
  events, in the order they happen.
\<close>

datatype event = FetchWork json | Warning json | Sleep

record run_state =
  rows :: "row list"
  events :: "event list"

text \<open>Lines 130-171, the body of the loop for one group \<open>g\<close>. The three
  \<^verbatim>\<open>continue\<close> statements return the state without a row and without reaching
  \<^verbatim>\<open>time.sleep\<close> on line 171.\<close>

definition group_body :: "(json \<Rightarrow> py_error + json) \<Rightarrow> json \<Rightarrow> run_state \<Rightarrow> py_error + run_state" where
  "group_body fetch_work g st =
     and_then (get g ''work-summary'' JNull) (\<lambda>x.
     let work_summaries = py_or x (JList []) in
     if \<not> truthy work_summaries then Inr st
     else
       and_then (index0 work_summaries) (\<lambda>y.
       let ws = py_or y (JDict []) in
       and_then (get ws ''put-code'' JNull) (\<lambda>put_code.
       if put_code = JNull then Inr st
       else
         (case fetch_work put_code of
            Inl e \<Rightarrow>
              Inr (st\<lparr>events := events st @ [FetchWork put_code, Warning put_code]\<rparr>)
          | Inr body \<Rightarrow>
              and_then (main_row (py_or body (JDict [])) ws) (\<lambda>r.
              Inr (st\<lparr>rows := rows st @ [r],
                      events := events st @ [FetchWork put_code, Sleep]\<rparr>))))))"

fun main_loop :: "(json \<Rightarrow> py_error + json) \<Rightarrow> json list \<Rightarrow> run_state \<Rightarrow> py_error + run_state" where
  "main_loop fetch_work [] st = Inr st"
| "main_loop fetch_work (g # gs) st =
     and_then (group_body fetch_work g st) (main_loop fetch_work gs)"

section \<open>Sorting (\<^verbatim>\<open>main\<close>, lines 173-178)\<close>

text \<open>\<^verbatim>\<open>int(s)\<close> on a string: surrounding whitespace, a sign, then decimal digits,
  where single underscores may stand between digits. The interpreter's limit on the
  number of digits is not modelled.\<close>

definition digit_of :: "char \<Rightarrow> nat option" where
  "digit_of c = (if c \<in> set ''0123456789'' then Some (of_char c - 48) else None)"

fun digits_value :: "nat \<Rightarrow> string \<Rightarrow> nat option" where
  "digits_value acc [] = Some acc"
| "digits_value acc (c # cs) =
     (case digit_of c of
        Some d \<Rightarrow> digits_value (10 * acc + d) cs
      | None \<Rightarrow>
          if c = CHR ''_'' then
            (case cs of
               [] \<Rightarrow> None
             | c' # _ \<Rightarrow> if digit_of c' = None then None else digits_value acc cs)
          else None)"

definition nat_of_digits :: "string \<Rightarrow> nat option" where
  "nat_of_digits s =
     (case s of
        [] \<Rightarrow> None
      | c # _ \<Rightarrow> if digit_of c = None then None else digits_value 0 s)"

definition int_of_str :: "string \<Rightarrow> int option" where
  "int_of_str s =
     (case strip s of
        [] \<Rightarrow> None
      | c # cs \<Rightarrow>
          if c = CHR ''-'' then map_option (\<lambda>n. - int n) (nat_of_digits cs)
          else if c = CHR ''+'' then map_option int (nat_of_digits cs)
          else map_option int (nat_of_digits (c # cs)))"

text \<open>\<^verbatim>\<open>int(v)\<close> on a value.\<close>

fun py_int :: "json \<Rightarrow> py_error + int" where
  "py_int (JNum n) = Inr n"
| "py_int (JBool b) = Inr (if b then 1 else 0)"
| "py_int (JStr s) = (case int_of_str s of None \<Rightarrow> Inl ValueError | Some n \<Rightarrow> Inr n)"
| "py_int _ = Inl TypeError"

text \<open>\<^verbatim>\<open>sort_key\<close>, lines 173-177 (the library has a \<open>sort_key\<close> of its own, hence
  the longer name): the bare \<^verbatim>\<open>except\<close> turns every exception into 0.\<close>

definition sort_key_row :: "row \<Rightarrow> int" where
  "sort_key_row r =
     (case py_int (py_or (row_year r) (JNum 0)) of
        Inl e \<Rightarrow> 0
      | Inr n \<Rightarrow> n)"

text \<open>Line 178, \<^verbatim>\<open>rows.sort(key=sort_key, reverse=True)\<close>: Python's sort is stable,
  also with \<^verbatim>\<open>reverse=True\<close>. It is modelled by the library's stable insertion sort on
  the negated key.\<close>

definition sort_rows :: "row list \<Rightarrow> row list" where
  "sort_rows rs = sort_key (\<lambda>r. - sort_key_row r) rs"

section \<open>The run (\<^verbatim>\<open>main\<close>, lines 108-203)\<close>

text \<open>
  \<open>record_fetch\<close> is what \<^verbatim>\<open>fetch_json(base_record_url)\<close> gives. A run ends in one
  of three ways: the record could not be fetched (line 123, \<^verbatim>\<open>sys.exit(1)\<close>); an
  exception nobody catches ends the interpreter; or the file is written from the
  sorted rows. Rendering the rows as text (lines 180-198) and the file system are not
  modelled: the file is identified with the rows it is rendered from.
\<close>

datatype outcome =
    RecordFetchFailed
  | Crashed py_error
  | Written "row list" "event list"

fun exit_code :: "outcome \<Rightarrow> nat" where
  "exit_code RecordFetchFailed = 1"
| "exit_code (Crashed e) = 1"
| "exit_code (Written rs evs) = 0"

fun output_file :: "outcome \<Rightarrow> row list option" where
  "output_file (Written rs evs) = Some rs"
| "output_file _ = None"

fun trace :: "outcome \<Rightarrow> event list" where
  "trace (Written rs evs) = evs"
| "trace _ = []"

text \<open>Lines 125-171: from the record to the rows.\<close>

definition collect_rows :: "(json \<Rightarrow> py_error + json) \<Rightarrow> json \<Rightarrow> py_error + run_state" where
  "collect_rows fetch_work record =
     and_then (get record ''activities-summary'' (JDict [])) (\<lambda>a.
     and_then (get (py_or a (JDict [])) ''works'' (JDict [])) (\<lambda>w.
     let groups = py_or w (JDict []) in
     and_then (get groups ''group'' (JList [])) (\<lambda>gl.
     and_then (py_iter (py_or gl (JList []))) (\<lambda>groups_list.
     main_loop fetch_work groups_list \<lparr>rows = [], events = []\<rparr>))))"

definition main :: "py_error + json \<Rightarrow> (json \<Rightarrow> py_error + json) \<Rightarrow> outcome" where
  "main record_fetch fetch_work =
     (case record_fetch of
        Inl e \<Rightarrow> RecordFetchFailed
      | Inr record \<Rightarrow>
          (case collect_rows fetch_work record of
             Inl e \<Rightarrow> Crashed e
           | Inr st \<Rightarrow> Written (sort_rows (rows st)) (events st)))"

section \<open>Notions used in the statements\<close>

text \<open>A string is a bare DOI when nothing of what lines 82-85 remove is left in it:
  no whitespace around it, none of the two resolver prefixes anywhere, no \<^verbatim>\<open>doi:\<close>
  in front.\<close>

definition bare_doi :: "string \<Rightarrow> bool" where
  "bare_doi s =
     (strip s = s \<and> \<not> contains ''https://doi.org/'' s \<and> \<not> contains ''http://doi.org/'' s
      \<and> \<not> prefix ''doi:'' s)"

text \<open>Reading a nested structure the way the specification speaks of it: the value
  under a key, \<^verbatim>\<open>None\<close> when there is no such key or the value is no dictionary at
  all; the items of a list, none when the value is no list.\<close>

fun field :: "string \<Rightarrow> json \<Rightarrow> json" where
  "field k (JDict kvs) = (case map_of kvs k of None \<Rightarrow> JNull | Some v \<Rightarrow> v)"
| "field k _ = JNull"


fun items :: "json \<Rightarrow> json list" where
  "items (JList xs) = xs"
| "items _ = []"

fun str_of :: "json \<Rightarrow> string" where
  "str_of (JStr s) = s"
| "str_of _ = ''''"

text \<open>The shapes the extractors are written for. A level that should hold a
  dictionary holds one, or is missing, \<^verbatim>\<open>null\<close> or otherwise false; the same for a
  string; a level that should hold a list holds a list of well-shaped items, or is
  false.\<close>

definition dict_or_falsy :: "json \<Rightarrow> bool" where
  "dict_or_falsy v = (is_dict v \<or> \<not> truthy v)"


definition every_item :: "(json \<Rightarrow> bool) \<Rightarrow> json \<Rightarrow> bool" where
  "every_item P v = (case v of JList xs \<Rightarrow> list_all P xs | _ \<Rightarrow> \<not> truthy v)"














text \<open>The external identifiers of a detail object, the URL of one of them, whether
  its type is a DOI type, and its value normalized as a DOI.\<close>

definition external_ids :: "json \<Rightarrow> json list" where
  "external_ids work = items (field ''external-id'' (field ''external-ids'' work))"

definition id_url :: "json \<Rightarrow> json" where
  "id_url e = field ''value'' (field ''external-id-url'' e)"

definition doi_type :: "json \<Rightarrow> bool" where
  "doi_type e = contains ''doi'' (lower (str_of (field ''external-id-type'' e)))"

definition id_doi :: "json \<Rightarrow> string" where
  "id_doi e =
     (case strip_doi_prefixes (strip (str_of (field ''external-id-value'' e))) of
        Inl err \<Rightarrow> ''''
      | Inr d \<Rightarrow> d)"

text \<open>The first value of a list that is true, the empty string when there is none;
  the last item of a list that satisfies a predicate.\<close>

definition first_truthy :: "json list \<Rightarrow> json" where
  "first_truthy vs = (case filter truthy vs of [] \<Rightarrow> JStr '''' | v # _ \<Rightarrow> v)"

definition last_where :: "('a \<Rightarrow> bool) \<Rightarrow> 'a list \<Rightarrow> 'a option" where
  "last_where P xs = (case rev (filter P xs) of [] \<Rightarrow> None | x # _ \<Rightarrow> Some x)"

text \<open>The link and the DOI as the specification describes them.\<close>

definition spec_link :: "json \<Rightarrow> json" where
  "spec_link work =
     first_truthy (map id_url (external_ids work) @ [field ''value'' (field ''url'' work)])"

definition spec_doi :: "json \<Rightarrow> string" where
  "spec_doi work =
     (case last_where doi_type (external_ids work) of None \<Rightarrow> '''' | Some e \<Rightarrow> id_doi e)"

text \<open>Sample data: the detail object and the record of the specification's end-to-end
  scenario, and a detail object with two identifiers of a DOI type and URLs on the
  second and third.\<close>

definition sample_detail :: json where
  "sample_detail =
     JDict [(''title'', JDict [(''title'', JDict [(''value'', JStr ''Study A'')])]),
            (''contributors'', JDict [(''contributor'',
               JList [JDict [(''credit-name'', JDict [(''value'', JStr ''J. Doe'')])]])]),
            (''journal-title'', JDict [(''value'', JStr ''Journal X'')]),
            (''publication-date'', JDict [(''year'', JDict [(''value'', JStr ''2020'')])]),
            (''external-ids'', JDict [(''external-id'',
               JList [JDict [(''external-id-type'', JStr ''doi''),
                             (''external-id-value'', JStr ''10.1000/xyz'')]])])]"

definition sample_summary :: json where
  "sample_summary =
     JDict [(''put-code'', JNum 123),
            (''title'', JDict [(''title'', JDict [(''value'', JStr ''Study A (summary)'')])]),
            (''journal-title'', JDict [(''value'', JStr ''Journal X (summary)'')]),
            (''publication-date'', JDict [(''year'', JDict [(''value'', JStr ''2019'')])])]"

definition sample_record :: json where
  "sample_record =
     JDict [(''activities-summary'', JDict [(''works'', JDict [(''group'',
       JList [JDict [(''work-summary'', JList [sample_summary])]])])])]"

definition two_doi_detail :: json where
  "two_doi_detail =
     JDict [(''external-ids'', JDict [(''external-id'',
       JList [JDict [(''external-id-type'', JStr ''DOI''),
                     (''external-id-value'', JStr ''10.1/first'')],
              JDict [(''external-id-type'', JStr ''eid''),
                     (''external-id-value'', JStr ''2-s2.0-1''),
                     (''external-id-url'', JDict [(''value'', JStr ''https://example.org/eid'')])],
              JDict [(''external-id-type'', JStr ''doi''),
                     (''external-id-value'', JStr ''https://doi.org/10.1/second''),
                     (''external-id-url'', JDict [(''value'', JStr ''https://doi.org/10.1/second'')])]])])]"

definition sample_row :: row where
  "sample_row =
     \<lparr> row_title = ''Study A'', row_authors = ''J. Doe'', row_journal = ''Journal X'',
       row_year = JStr ''2020'', row_doi = ''[10.1000/xyz](https://doi.org/10.1000/xyz)'',
       row_link = JStr ''https://doi.org/10.1000/xyz'' \<rparr>"






definition padded_summary :: json where
  "padded_summary = JDict [(''put-code'', JNum 7),
     (''title'', JDict [(''title'', JDict [(''value'', JStr '' A'')])])]"

definition bare_summary :: json where
  "bare_summary = JDict [(''put-code'', JNum 123)]"

text \<open>A group is fetchable with put-code \<open>p\<close> when it is a dictionary whose
  \<^verbatim>\<open>work-summary\<close> is a list that starts with a summary carrying the put-code \<open>p\<close>.
  A group is well formed when it is a dictionary whose \<^verbatim>\<open>work-summary\<close> is false
  or a list that starts with a dictionary or a false value; a record is well formed
  when the levels down to its groups are.\<close>

definition fetchable :: "json \<Rightarrow> json \<Rightarrow> bool" where
  "fetchable g p =
     (is_dict g \<and>
      (case field ''work-summary'' g of
         JList (s # rest) \<Rightarrow> dict_or_falsy s \<and> field ''put-code'' s = p \<and> p \<noteq> JNull
       | _ \<Rightarrow> False))"

definition group_shape :: "json \<Rightarrow> bool" where
  "group_shape g =
     (is_dict g \<and>
      (case field ''work-summary'' g of
         JList (s # rest) \<Rightarrow> dict_or_falsy s
       | v \<Rightarrow> \<not> truthy v))"

definition record_shape :: "json \<Rightarrow> bool" where
  "record_shape record =
     (is_dict record \<and> dict_or_falsy (field ''activities-summary'' record) \<and>
      dict_or_falsy (field ''works'' (field ''activities-summary'' record)) \<and>
      every_item group_shape
        (field ''group'' (field ''works'' (field ''activities-summary'' record))))"

text \<open>A record with two groups, a group with only the first summary of the second
  one, and two networks: on one only the work with put-code 123 can be fetched, on
  the other nothing can.\<close>

definition group_one :: json where
  "group_one = JDict [(''work-summary'', JList [JDict [(''put-code'', JNum 1)]])]"

definition group_two :: json where
  "group_two = JDict [(''work-summary'', JList [sample_summary, padded_summary])]"

definition group_two_first_only :: json where
  "group_two_first_only = JDict [(''work-summary'', JList [sample_summary])]"

definition two_group_record :: json where
  "two_group_record =
     JDict [(''activities-summary'', JDict [(''works'', JDict [(''group'',
       JList [group_one, group_two])])])]"

definition flaky_fetch :: "json \<Rightarrow> py_error + json" where
  "flaky_fetch p = (if p = JNum 123 then Inr sample_detail else Inl RequestError)"

definition failing_fetch :: "json \<Rightarrow> py_error + json" where
  "failing_fetch p = Inl RequestError"

definition empty_state :: run_state where
  "empty_state = \<lparr>rows = [], events = []\<rparr>"

text \<open>A detail object with a line break in a contributor's name and blanks around the
  year.\<close>

definition messy_detail :: json where
  "messy_detail =
     JDict [(''title'', JDict [(''title'', JDict [(''value'', JStr ''T'')])]),
            (''contributors'', JDict [(''contributor'',
               JList [JDict [(''credit-name'',
                 JDict [(''value'', JStr (''J.'' @ [CHR 0x0A] @ ''Doe''))])]])]),
            (''publication-date'', JDict [(''year'', JDict [(''value'', JStr '' 2020 '')])])]"



section \<open>Strings\<close>

lemma replace_absent: "\<not> contains old s \<Longrightarrow> replace old new s = s"
  by (induction s) auto



section \<open>DOI normalization\<close>

text \<open>
  C6, as amended. The normalization of lines 82-85 leaves every bare DOI unchanged,
  where a bare DOI is a string without surrounding whitespace, without
  \<^verbatim>\<open>https://doi.org/\<close> or \<^verbatim>\<open>http://doi.org/\<close> inside and without a leading
  \<^verbatim>\<open>doi:\<close>.
\<close>

theorem normalize_doi_bare: "bare_doi s \<Longrightarrow> normalize_doi (JStr s) = Inr s"
  by (simp add: bare_doi_def normalize_doi_def strip_doi_prefixes_def replace_absent)

theorem normalize_doi_bare_witness:
  "bare_doi ''10.1000/xyz'' \<and> normalize_doi (JStr ''10.1000/xyz'') = Inr ''10.1000/xyz''"
proof -
  have h: "bare_doi ''10.1000/xyz''"
    by code_simp
  show ?thesis
    using h normalize_doi_bare [OF h] by simp
qed

text \<open>
  C6 as the specification states it fails: the output of one application need not be
  a fixed point. From \<^verbatim>\<open>doi: 10.1000/xyz\<close> the first application leaves a leading
  space, which the second one strips.
\<close>

theorem normalize_doi_not_idempotent:
  "normalize_doi (JStr ''doi: 10.1000/xyz'') = Inr '' 10.1000/xyz'' \<and>
   normalize_doi (JStr '' 10.1000/xyz'') \<noteq> Inr '' 10.1000/xyz''"
  by code_simp

section \<open>Reading fields\<close>

lemma field_falsy: "\<not> truthy v \<Longrightarrow> field k v = JNull"
  by (cases v) auto


lemma get_dict: "is_dict v \<Longrightarrow> get v k JNull = Inr (field k v)"
  by (cases v) (auto split: option.splits)


lemma get_or_empty: "dict_or_falsy a \<Longrightarrow> get (py_or a (JDict [])) k JNull = Inr (field k a)"
  by (cases a) (auto simp: dict_or_falsy_def py_or_def split: option.splits)

lemma get_success: "get v k d = Inr x \<Longrightarrow> is_dict v"
  by (cases v) auto

lemma get_success_field: "get v k JNull = Inr x \<Longrightarrow> x = field k v"
  by (cases v) (auto split: option.splits)

lemma get_or_empty_success:
  "get (py_or a (JDict [])) k JNull = Inr x \<Longrightarrow> x = field k a"
  by (cases a) (auto simp: py_or_def split: option.splits if_splits)

section \<open>The extractors on well-shaped input\<close>






lemma iter_every_item:
  "every_item P b \<Longrightarrow> py_iter (py_or b (JList [])) = Inr (items b) \<and> list_all P (items b)"
  by (cases b) (auto simp: every_item_def py_or_def)

lemma py_or_get_default:
  "is_dict v \<Longrightarrow> \<not> truthy d \<Longrightarrow> get v k d = Inr a \<Longrightarrow> py_or a d = py_or (field k v) d"
  by (cases v) (auto simp: py_or_def split: option.splits)

lemma get_default_total: "is_dict v \<Longrightarrow> \<exists>a. get v k d = Inr a"
  by (cases v) auto

lemma py_or_empty_dict: "dict_or_falsy a \<Longrightarrow> is_dict (py_or a (JDict []))"
  by (auto simp: dict_or_falsy_def py_or_def)

lemma field_py_or_empty: "field k (py_or a (JDict [])) = field k a"
  by (simp add: py_or_def field_falsy)


section \<open>The loop over the external identifiers\<close>

lemma and_then_Inr: "and_then m f = Inr y \<longleftrightarrow> (\<exists>x. m = Inr x \<and> f x = Inr y)"
  by (cases m) auto

lemma last_where_Nil: "last_where P [] = None"
  by (simp add: last_where_def)

lemma last_where_Cons:
  "last_where P (x # xs) =
     (case last_where P xs of None \<Rightarrow> (if P x then Some x else None) | Some y \<Rightarrow> Some y)"
  by (simp add: last_where_def split: list.splits)

lemma first_truthy_Nil: "first_truthy [] = JStr ''''"
  by (simp add: first_truthy_def)

lemma first_truthy_Cons:
  "first_truthy (v # vs) = (if truthy v then v else first_truthy vs)"
  by (simp add: first_truthy_def)

lemma first_truthy_falsy_iff: "\<not> truthy (first_truthy vs) \<longleftrightarrow> filter truthy vs = []"
proof (induction vs)
  case Nil
  show ?case by (simp add: first_truthy_Nil)
next
  case (Cons v vs)
  then show ?case by (simp add: first_truthy_Cons)
qed

lemma first_truthy_snoc:
  "first_truthy (vs @ [y]) =
     (if truthy (first_truthy vs) then first_truthy vs else py_or y (JStr ''''))"
  by (induction vs) (simp_all add: first_truthy_Cons first_truthy_Nil py_or_def)

lemma contains_doi_self: "(t = ''doi'' \<or> contains ''doi'' t) = contains ''doi'' t"
  by auto

lemma str_lower_or_empty:
  "str_lower (py_or ty (JStr '''')) = Inr t \<Longrightarrow> t = lower (str_of ty)"
  by (cases ty) (auto simp: py_or_def lower_def split: if_splits)

lemma normalize_doi_or_empty:
  "normalize_doi (py_or v (JStr '''')) = Inr d \<Longrightarrow>
   strip_doi_prefixes (strip (str_of v)) = Inr d"
  by (cases v) (auto simp: py_or_def normalize_doi_def strip_def split: if_splits)

lemma id_doi_eq: "strip_doi_prefixes (strip (str_of (field ''external-id-value'' e))) = Inr d
  \<Longrightarrow> id_doi e = d"
  by (simp add: id_doi_def)

text \<open>What one pass of the loop leaves in \<open>(doi, url)\<close>, when it does not raise.\<close>

lemma doi_url_step_result:
  assumes "doi_url_step e (d, u) = Inr (d', u')"
  shows "d' = (if doi_type e then id_doi e else d)"
    and "u' = (if truthy u then u else py_or (id_url e) (JStr ''''))"
proof -
  from assms obtain ty t v where
    ty: "get e ''external-id-type'' JNull = Inr ty" and
    t: "str_lower (py_or ty (JStr '''')) = Inr t" and
    v: "get e ''external-id-value'' JNull = Inr v" and
    dd: "(if t = ''doi'' \<or> contains ''doi'' t then normalize_doi (py_or v (JStr '''')) else Inr d) = Inr d'" and
    uu: "(if \<not> truthy u
          then and_then (get e ''external-id-url'' JNull) (\<lambda>x.
               and_then (get (py_or x (JDict [])) ''value'' JNull) (\<lambda>uv. Inr (py_or uv (JStr ''''))))
          else Inr u) = Inr u'"
    by (auto simp: doi_url_step_def and_then_Inr Let_def cong: if_cong)
  from ty have tyf: "ty = field ''external-id-type'' e"
    by (rule get_success_field)
  from v have vf: "v = field ''external-id-value'' e"
    by (rule get_success_field)
  from t tyf have tt: "t = lower (str_of (field ''external-id-type'' e))"
    by (simp add: str_lower_or_empty)
  then have c: "(t = ''doi'' \<or> contains ''doi'' t) = doi_type e"
    by (simp only: contains_doi_self doi_type_def)
  show "d' = (if doi_type e then id_doi e else d)"
  proof (cases "doi_type e")
    case True
    with dd c have "normalize_doi (py_or v (JStr '''')) = Inr d'"
      by simp
    with vf have "id_doi e = d'"
      by (simp add: normalize_doi_or_empty id_doi_eq)
    with True show ?thesis by simp
  next
    case False
    with dd c show ?thesis by simp
  qed
  show "u' = (if truthy u then u else py_or (id_url e) (JStr ''''))"
  proof (cases "truthy u")
    case True
    with uu show ?thesis by simp
  next
    case False
    with uu obtain x y where
      x: "get e ''external-id-url'' JNull = Inr x" and
      y: "get (py_or x (JDict [])) ''value'' JNull = Inr y" and
      r: "u' = py_or y (JStr '''')"
      by (auto simp: and_then_Inr)
    from x have "x = field ''external-id-url'' e"
      by (rule get_success_field)
    with y have "y = id_url e"
      by (simp add: id_url_def get_or_empty_success)
    with r False show ?thesis by simp
  qed
qed

lemma doi_url_loop_result:
  "doi_url_loop es (d, u) = Inr (d', u') \<Longrightarrow>
   d' = (case last_where doi_type es of None \<Rightarrow> d | Some e \<Rightarrow> id_doi e) \<and>
   u' = (if truthy u \<or> es = [] then u else first_truthy (map id_url es))"
proof (induction es arbitrary: d u)
  case Nil
  then show ?case by (simp add: last_where_Nil)
next
  case (Cons e es)
  from Cons.prems obtain d1 u1 where
    s: "doi_url_step e (d, u) = Inr (d1, u1)" and
    l: "doi_url_loop es (d1, u1) = Inr (d', u')"
    by (auto simp: and_then_Inr)
  from s have d1: "d1 = (if doi_type e then id_doi e else d)"
    and u1: "u1 = (if truthy u then u else py_or (id_url e) (JStr ''''))"
    by (rule doi_url_step_result)+
  from Cons.IH [OF l] have
    d': "d' = (case last_where doi_type es of None \<Rightarrow> d1 | Some e \<Rightarrow> id_doi e)" and
    u': "u' = (if truthy u1 \<or> es = [] then u1 else first_truthy (map id_url es))"
    by simp_all
  from d' d1 have "d' = (case last_where doi_type (e # es) of None \<Rightarrow> d | Some e \<Rightarrow> id_doi e)"
    by (simp add: last_where_Cons split: option.splits)
  moreover from u' u1 have
    "u' = (if truthy u \<or> e # es = [] then u else first_truthy (map id_url (e # es)))"
    by (auto simp: first_truthy_Cons first_truthy_Nil py_or_def)
  ultimately show ?case by simp
qed

lemma doi_url_step_not_dict: "\<not> is_dict e \<Longrightarrow> doi_url_step e st = Inl AttributeError"
  by (cases e) (simp_all add: doi_url_step_def)

lemma iter_items_of_loop:
  assumes "py_iter (py_or b (JList [])) = Inr es" and "doi_url_loop es st = Inr st'"
  shows "es = items b"
proof (cases b)
  case (JStr s)
  with assms show ?thesis
    by (cases s) (auto simp: py_or_def doi_url_step_not_dict)
next
  case (JDict kvs)
  with assms show ?thesis
    by (cases kvs) (auto simp: py_or_def doi_url_step_not_dict)
qed (use assms in \<open>auto simp: py_or_def split: if_splits\<close>)

text \<open>What \<^verbatim>\<open>extract_doi_and_url\<close> returns, when it returns.\<close>

lemma extract_doi_and_url_result:
  assumes "extract_doi_and_url work = Inr (d, u)"
  shows "d = spec_doi work" and "u = spec_link work"
proof -
  have "d = spec_doi work \<and> u = spec_link work"
  proof (cases "truthy work")
    case False
    with assms show ?thesis
      by (simp add: extract_doi_and_url_def spec_doi_def spec_link_def external_ids_def
          field_falsy last_where_Nil first_truthy_Cons first_truthy_Nil)
  next
    case True
    let ?ids = "field ''external-id'' (field ''external-ids'' work)"
    from assms True obtain a b es d1 u1 where
      a: "get work ''external-ids'' JNull = Inr a" and
      b: "get (py_or a (JDict [])) ''external-id'' (JList []) = Inr b" and
      es: "py_iter (py_or b (JList [])) = Inr es" and
      l: "doi_url_loop es ('''', JStr '''') = Inr (d1, u1)" and
      f: "(if \<not> truthy u1
           then and_then (get work ''url'' JNull) (\<lambda>x.
                and_then (get (py_or x (JDict [])) ''value'' JNull) (\<lambda>uv.
                Inr (d1, py_or uv (JStr ''''))))
           else Inr (d1, u1)) = Inr (d, u)"
      by (auto simp: extract_doi_and_url_def and_then_Inr cong: if_cong)
    from a have af: "a = field ''external-ids'' work"
      by (rule get_success_field)
    from b have "is_dict (py_or a (JDict []))"
      by (rule get_success)
    with b have "py_or b (JList []) = py_or (field ''external-id'' (py_or a (JDict []))) (JList [])"
      by (simp add: py_or_get_default)
    with af have "py_or b (JList []) = py_or ?ids (JList [])"
      by (simp add: field_py_or_empty)
    with es l have "es = items ?ids"
      by (simp add: iter_items_of_loop)
    then have ids: "es = external_ids work"
      by (simp add: external_ids_def)
    from doi_url_loop_result [OF l] ids have
      d1: "d1 = spec_doi work" and
      u1: "u1 = first_truthy (map id_url (external_ids work))"
      by (auto simp: spec_doi_def first_truthy_Nil)
    show ?thesis
    proof (cases "truthy u1")
      case True
      with f d1 u1 show ?thesis
        by (simp add: spec_link_def first_truthy_snoc)
    next
      case False
      with f obtain x y where
        x: "get work ''url'' JNull = Inr x" and
        y: "get (py_or x (JDict [])) ''value'' JNull = Inr y" and
        r: "d = d1" "u = py_or y (JStr '''')"
        by (auto simp: and_then_Inr)
      from x have "x = field ''url'' work"
        by (rule get_success_field)
      with y have "y = field ''value'' (field ''url'' work)"
        by (simp add: get_or_empty_success)
      with r False d1 u1 show ?thesis
        by (simp add: spec_link_def first_truthy_snoc)
    qed
  qed
  then show "d = spec_doi work" and "u = spec_link work"
    by simp_all
qed






section \<open>Totality of the extractors\<close>




text \<open>Line 38 also raises where the inner \<^verbatim>\<open>title\<close> is \<^verbatim>\<open>null\<close>: its second
  \<^verbatim>\<open>get\<close> has no \<^verbatim>\<open>or {}\<close>.\<close>

lemma extract_title_inner_null:
  "extract_title (JDict [(''title'', JDict [(''title'', JNull)])]) = Inl AttributeError"
  by code_simp

section \<open>The link and the DOI\<close>

lemma first_truthy_first_url:
  "first_truthy (map f xs @ [y]) =
     (case filter (\<lambda>e. truthy (f e)) xs of [] \<Rightarrow> py_or y (JStr '''') | e # _ \<Rightarrow> f e)"
  by (induction xs) (simp_all add: first_truthy_Cons first_truthy_Nil py_or_def)

lemma last_where_last:
  "filter P xs \<noteq> [] \<Longrightarrow> last_where P xs = Some (last (filter P xs))"
  by (cases "rev (filter P xs)") (auto simp: last_where_def hd_rev [symmetric])

lemma main_row_link:
  assumes "main_row work ws = Inr r" and "extract_doi_and_url work = Inr (d, u)"
  shows "row_link r = main_link d u"
  using assms by (auto simp: main_row_def and_then_Inr)

text \<open>
  C5. When \<^verbatim>\<open>extract_doi_and_url\<close> returns \<open>(d, u)\<close> for a detail object, \<open>u\<close>
  is the URL of the first external identifier, of whatever type, whose URL is not
  empty; when there is none, it is the detail's own \<^verbatim>\<open>url\<close> value, or the empty
  string. In the row built from this detail the link is \<open>u\<close>, except that an empty
  \<open>u\<close> with a DOI \<open>d\<close> gives exactly \<^verbatim>\<open>https://doi.org/\<close> followed by \<open>d\<close>.
\<close>

theorem link_is_first_url_else_direct_else_doi:
  assumes "extract_doi_and_url work = Inr (d, u)"
  shows "(case filter (\<lambda>e. truthy (id_url e)) (external_ids work) of
            [] \<Rightarrow> u = py_or (field ''value'' (field ''url'' work)) (JStr '''')
          | e # _ \<Rightarrow> u = id_url e) \<and>
         (main_row work ws = Inr r \<longrightarrow>
            row_link r = (if \<not> truthy u \<and> d \<noteq> [] then JStr (''https://doi.org/'' @ d) else u))"
proof -
  from assms have "u = spec_link work"
    by (rule extract_doi_and_url_result)
  then have "case filter (\<lambda>e. truthy (id_url e)) (external_ids work) of
            [] \<Rightarrow> u = py_or (field ''value'' (field ''url'' work)) (JStr '''')
          | e # _ \<Rightarrow> u = id_url e"
    by (simp add: spec_link_def first_truthy_first_url split: list.splits)
  moreover have "main_row work ws = Inr r \<longrightarrow>
            row_link r = (if \<not> truthy u \<and> d \<noteq> [] then JStr (''https://doi.org/'' @ d) else u)"
    using assms by (auto simp: main_row_link main_link_def)
  ultimately show ?thesis
    by simp
qed

theorem link_is_first_url_else_direct_else_doi_witness:
  "extract_doi_and_url sample_detail = Inr (''10.1000/xyz'', JStr '''') \<and>
   main_row sample_detail sample_summary = Inr sample_row \<and>
   row_link sample_row = JStr ''https://doi.org/10.1000/xyz'' \<and>
   extract_doi_and_url two_doi_detail = Inr (''10.1/second'', JStr ''https://example.org/eid'') \<and>
   map id_url (filter (\<lambda>e. truthy (id_url e)) (external_ids two_doi_detail)) =
     [JStr ''https://example.org/eid'', JStr ''https://doi.org/10.1/second'']"
proof -
  have h: "extract_doi_and_url sample_detail = Inr (''10.1000/xyz'', JStr '''')"
    by code_simp
  have m: "main_row sample_detail sample_summary = Inr sample_row"
    by code_simp
  have h2: "extract_doi_and_url two_doi_detail
              = Inr (''10.1/second'', JStr ''https://example.org/eid'')"
    by code_simp
  have f: "map id_url (filter (\<lambda>e. truthy (id_url e)) (external_ids two_doi_detail)) =
     [JStr ''https://example.org/eid'', JStr ''https://doi.org/10.1/second'']"
    by code_simp
  from link_is_first_url_else_direct_else_doi [OF h, of sample_summary sample_row] m
  have "row_link sample_row = JStr ''https://doi.org/10.1000/xyz''"
    by simp
  with h m h2 f show ?thesis
    by simp
qed

text \<open>
  C10. When \<^verbatim>\<open>extract_doi_and_url\<close> returns \<open>(d, u)\<close> for a detail object with
  identifiers of a DOI type (one or several), \<open>d\<close> is the normalized value of the last
  of them in list order, and \<open>u\<close> is still the URL of the first identifier whose URL is
  not empty.
\<close>

theorem doi_is_last_of_doi_type:
  assumes "extract_doi_and_url work = Inr (d, u)"
    and "filter doi_type (external_ids work) \<noteq> []"
  shows "d = id_doi (last (filter doi_type (external_ids work))) \<and>
         (case filter (\<lambda>e. truthy (id_url e)) (external_ids work) of
            [] \<Rightarrow> True
          | e # _ \<Rightarrow> u = id_url e)"
proof -
  from assms(1) have "d = spec_doi work" and "u = spec_link work"
    by (rule extract_doi_and_url_result)+
  with assms(2) show ?thesis
    by (simp add: spec_doi_def last_where_last spec_link_def first_truthy_first_url
        split: list.splits)
qed

theorem doi_is_last_of_doi_type_witness:
  "extract_doi_and_url two_doi_detail = Inr (''10.1/second'', JStr ''https://example.org/eid'') \<and>
   length (filter doi_type (external_ids two_doi_detail)) = 2 \<and>
   id_doi (last (filter doi_type (external_ids two_doi_detail))) = ''10.1/second''"
proof -
  have h: "extract_doi_and_url two_doi_detail
             = Inr (''10.1/second'', JStr ''https://example.org/eid'')"
    by code_simp
  have n: "length (filter doi_type (external_ids two_doi_detail)) = 2"
    by code_simp
  then have ne: "filter doi_type (external_ids two_doi_detail) \<noteq> []"
    by auto
  from doi_is_last_of_doi_type [OF h ne] h n show ?thesis
    by simp
qed

section \<open>Falling back to the summary\<close>























section \<open>The loop over the groups\<close>

lemma group_body_fetch_fails:
  assumes "fetchable g p" and "fetch_work p = Inl e"
  shows "group_body fetch_work g st =
           Inr (st\<lparr>events := events st @ [FetchWork p, Warning p]\<rparr>)"
proof -
  from assms(1) obtain s rest where
    g: "is_dict g" and w: "field ''work-summary'' g = JList (s # rest)" and
    s: "dict_or_falsy s" and p: "field ''put-code'' s = p" and n: "p \<noteq> JNull"
    by (auto simp: fetchable_def split: json.splits list.splits)
  from s p have "get (py_or s (JDict [])) ''put-code'' JNull = Inr p"
    by (simp add: get_or_empty)
  with g w n assms(2) show ?thesis
    by (simp add: group_body_def get_dict py_or_def Let_def)
qed

lemma group_body_rows:
  assumes "group_body fetch_work g st = Inr st'"
  shows "rows st' = rows st \<or> (\<exists>r. rows st' = rows st @ [r])"
proof (cases "\<exists>x. get g ''work-summary'' JNull = Inr x \<and> truthy (py_or x (JList []))")
  case False
  with assms show ?thesis
    by (auto simp: group_body_def and_then_Inr Let_def split: if_splits)
next
  case True
  with assms obtain x y p where
    "get g ''work-summary'' JNull = Inr x" and
    "index0 (py_or x (JList [])) = Inr y" and
    "get (py_or y (JDict [])) ''put-code'' JNull = Inr p" and
    f: "(if p = JNull then Inr st
         else (case fetch_work p of
                 Inl e \<Rightarrow> Inr (st\<lparr>events := events st @ [FetchWork p, Warning p]\<rparr>)
               | Inr body \<Rightarrow>
                   and_then (main_row (py_or body (JDict [])) (py_or y (JDict []))) (\<lambda>r.
                   Inr (st\<lparr>rows := rows st @ [r],
                           events := events st @ [FetchWork p, Sleep]\<rparr>)))) = Inr st'"
    by (auto simp: group_body_def and_then_Inr Let_def cong: if_cong sum.case_cong)
  show ?thesis
  proof (cases "p = JNull")
    case True
    with f show ?thesis by simp
  next
    case False
    with f show ?thesis
      by (cases "fetch_work p") (auto simp: and_then_Inr)
  qed
qed

lemma main_loop_rows:
  "main_loop fetch_work gs st = Inr st' \<Longrightarrow> length (rows st') \<le> length (rows st) + length gs"
proof (induction gs arbitrary: st)
  case Nil
  then show ?case by simp
next
  case (Cons g gs)
  from Cons.prems obtain st1 where
    b: "group_body fetch_work g st = Inr st1" and l: "main_loop fetch_work gs st1 = Inr st'"
    by (auto simp: and_then_Inr)
  from group_body_rows [OF b] have "length (rows st1) \<le> length (rows st) + 1"
    by auto
  with Cons.IH [OF l] show ?case
    by simp
qed

lemma group_body_first_summary:
  assumes "is_dict g" and "is_dict g'"
    and "field ''work-summary'' g = JList (s # rest)"
    and "field ''work-summary'' g' = JList (s # rest')"
  shows "group_body fetch_work g st = group_body fetch_work g' st"
  using assms by (simp add: group_body_def get_dict py_or_def Let_def)

lemma group_body_all_fail:
  assumes "group_shape g" and "\<forall>p. \<exists>e. fetch_work p = Inl e"
  shows "\<exists>st'. group_body fetch_work g st = Inr st' \<and> rows st' = rows st"
proof -
  from assms(1) have g: "is_dict g"
    by (simp add: group_shape_def)
  show ?thesis
  proof (cases "truthy (field ''work-summary'' g)")
    case False
    with g show ?thesis
      by (simp add: group_body_def get_dict py_or_def Let_def)
  next
    case True
    with assms(1) obtain s rest where
      w: "field ''work-summary'' g = JList (s # rest)" and s: "dict_or_falsy s"
      by (auto simp: group_shape_def split: json.splits list.splits)
    let ?p = "field ''put-code'' s"
    from s have c: "get (py_or s (JDict [])) ''put-code'' JNull = Inr ?p"
      by (simp add: get_or_empty)
    from assms(2) obtain e where "fetch_work ?p = Inl e"
      by blast
    with g w c show ?thesis
      by (simp add: group_body_def get_dict py_or_def Let_def)
  qed
qed

lemma main_loop_all_fail:
  assumes "\<forall>p. \<exists>e. fetch_work p = Inl e"
  shows "list_all group_shape gs \<Longrightarrow>
         \<exists>st'. main_loop fetch_work gs st = Inr st' \<and> rows st' = rows st"
proof (induction gs arbitrary: st)
  case Nil
  show ?case by simp
next
  case (Cons g gs)
  from Cons.prems have "group_shape g" and r: "list_all group_shape gs"
    by simp_all
  with assms obtain st1 where
    b: "group_body fetch_work g st = Inr st1" and e: "rows st1 = rows st"
    using group_body_all_fail by blast
  from Cons.IH [OF r] obtain st2 where
    "main_loop fetch_work gs st1 = Inr st2" and "rows st2 = rows st1"
    by blast
  with b e show ?case
    by simp
qed

lemma collect_rows_all_fail:
  assumes "record_shape record" and "\<forall>p. \<exists>e. fetch_work p = Inl e"
  shows "\<exists>st. collect_rows fetch_work record = Inr st \<and> rows st = []"
proof -
  let ?a = "field ''activities-summary'' record"
  let ?w = "field ''works'' ?a"
  let ?gs = "field ''group'' ?w"
  from assms(1) have r: "is_dict record" and a: "dict_or_falsy ?a" and w: "dict_or_falsy ?w"
    and gs: "every_item group_shape ?gs"
    by (simp_all add: record_shape_def)
  from r obtain x where x: "get record ''activities-summary'' (JDict []) = Inr x"
    using get_default_total by blast
  with r have px: "py_or x (JDict []) = py_or ?a (JDict [])"
    by (simp add: py_or_get_default)
  from a have da: "is_dict (py_or ?a (JDict []))"
    by (rule py_or_empty_dict)
  then obtain y where y: "get (py_or ?a (JDict [])) ''works'' (JDict []) = Inr y"
    using get_default_total by blast
  with da have "py_or y (JDict []) = py_or (field ''works'' (py_or ?a (JDict []))) (JDict [])"
    by (simp add: py_or_get_default)
  then have py: "py_or y (JDict []) = py_or ?w (JDict [])"
    by (simp add: field_py_or_empty)
  from w have dw: "is_dict (py_or ?w (JDict []))"
    by (rule py_or_empty_dict)
  then obtain z where z: "get (py_or ?w (JDict [])) ''group'' (JList []) = Inr z"
    using get_default_total by blast
  with dw have "py_or z (JList []) = py_or (field ''group'' (py_or ?w (JDict []))) (JList [])"
    by (simp add: py_or_get_default)
  then have pz: "py_or z (JList []) = py_or ?gs (JList [])"
    by (simp add: field_py_or_empty)
  from gs have it: "py_iter (py_or ?gs (JList [])) = Inr (items ?gs)"
    and al: "list_all group_shape (items ?gs)"
    by (simp_all add: iter_every_item)
  from main_loop_all_fail [OF assms(2) al] obtain st where
    "main_loop fetch_work (items ?gs) \<lparr>rows = [], events = []\<rparr> = Inr st" and "rows st = []"
    by force
  with x px y py z pz it show ?thesis
    by (simp add: collect_rows_def Let_def)
qed

section \<open>The error policy of a run\<close>

text \<open>
  C3. When the record cannot be fetched the run exits with status 1 and writes no
  file. When the detail of a fetchable group cannot be fetched, the loop goes on with
  the next group, having added no row and logged a warning. A run whose loop comes to
  its end exits with status 0 and writes the file from the rows it has; so does, with
  zero rows, a run over a well-formed record on which every detail fetch fails.
\<close>

theorem two_tier_error_policy:
  "exit_code (main (Inl e) fetch_work) = 1 \<and> output_file (main (Inl e) fetch_work) = None \<and>
   (fetchable g p \<and> fetch_work p = Inl e' \<longrightarrow>
      main_loop fetch_work (g # gs) st =
        main_loop fetch_work gs (st\<lparr>events := events st @ [FetchWork p, Warning p]\<rparr>)) \<and>
   (collect_rows fetch_work record = Inr st' \<longrightarrow>
      exit_code (main (Inr record) fetch_work) = 0 \<and>
      output_file (main (Inr record) fetch_work) = Some (sort_rows (rows st'))) \<and>
   (record_shape record \<and> (\<forall>q. \<exists>x. fetch_work q = Inl x) \<longrightarrow>
      exit_code (main (Inr record) fetch_work) = 0 \<and>
      output_file (main (Inr record) fetch_work) = Some [])"
proof -
  have a: "exit_code (main (Inl e) fetch_work) = 1 \<and> output_file (main (Inl e) fetch_work) = None"
    by (simp add: main_def)
  have b: "fetchable g p \<and> fetch_work p = Inl e' \<longrightarrow>
      main_loop fetch_work (g # gs) st =
        main_loop fetch_work gs (st\<lparr>events := events st @ [FetchWork p, Warning p]\<rparr>)"
    using group_body_fetch_fails [of g p fetch_work e' st] by auto
  have c: "collect_rows fetch_work record = Inr st' \<longrightarrow>
      exit_code (main (Inr record) fetch_work) = 0 \<and>
      output_file (main (Inr record) fetch_work) = Some (sort_rows (rows st'))"
    by (simp add: main_def)
  have d: "record_shape record \<and> (\<forall>q. \<exists>x. fetch_work q = Inl x) \<longrightarrow>
      exit_code (main (Inr record) fetch_work) = 0 \<and>
      output_file (main (Inr record) fetch_work) = Some []"
  proof
    assume h: "record_shape record \<and> (\<forall>q. \<exists>x. fetch_work q = Inl x)"
    then obtain s where "collect_rows fetch_work record = Inr s" and "rows s = []"
      using collect_rows_all_fail by blast
    then show "exit_code (main (Inr record) fetch_work) = 0 \<and>
      output_file (main (Inr record) fetch_work) = Some []"
      by (simp add: main_def sort_rows_def)
  qed
  from a b c d show ?thesis
    by blast
qed

theorem two_tier_error_policy_witness:
  "exit_code (main (Inl RequestError) flaky_fetch) = 1 \<and>
   output_file (main (Inl RequestError) flaky_fetch) = None \<and>
   fetchable group_one (JNum 1) \<and> flaky_fetch (JNum 1) = Inl RequestError \<and>
   main_loop flaky_fetch [group_one, group_two] empty_state =
     main_loop flaky_fetch [group_two]
       (empty_state\<lparr>events := events empty_state @ [FetchWork (JNum 1), Warning (JNum 1)]\<rparr>) \<and>
   collect_rows flaky_fetch two_group_record =
     Inr \<lparr>rows = [sample_row],
          events = [FetchWork (JNum 1), Warning (JNum 1), FetchWork (JNum 123), Sleep]\<rparr> \<and>
   exit_code (main (Inr two_group_record) flaky_fetch) = 0 \<and>
   output_file (main (Inr two_group_record) flaky_fetch) = Some (sort_rows [sample_row]) \<and>
   record_shape two_group_record \<and>
   exit_code (main (Inr two_group_record) failing_fetch) = 0 \<and>
   output_file (main (Inr two_group_record) failing_fetch) = Some []"
proof -
  have f: "fetchable group_one (JNum 1)" "flaky_fetch (JNum 1) = Inl RequestError"
    by code_simp+
  have c: "collect_rows flaky_fetch two_group_record =
     Inr \<lparr>rows = [sample_row],
          events = [FetchWork (JNum 1), Warning (JNum 1), FetchWork (JNum 123), Sleep]\<rparr>"
    by code_simp
  have r: "record_shape two_group_record"
    by code_simp
  have n: "\<forall>q. \<exists>x. failing_fetch q = Inl x"
    by (simp add: failing_fetch_def)
  from two_tier_error_policy
         [of RequestError flaky_fetch group_one "JNum 1" RequestError "[group_two]" empty_state
             two_group_record
             "\<lparr>rows = [sample_row],
               events = [FetchWork (JNum 1), Warning (JNum 1), FetchWork (JNum 123), Sleep]\<rparr>"]
       two_tier_error_policy [of RequestError failing_fetch _ _ _ _ _ two_group_record]
       f c r n
  show ?thesis
    by simp
qed

section \<open>Pacing\<close>

text \<open>
  C8 on the code. The record has two groups; the detail of the first cannot be
  fetched, that of the second can. The run fetches, warns, fetches again and only then
  sleeps: line 143 leaves the loop body by \<^verbatim>\<open>continue\<close> before line 171 is reached, so
  no delay follows the failed attempt.
\<close>

theorem no_sleep_after_failed_fetch:
  "trace (main (Inr two_group_record) flaky_fetch) =
     [FetchWork (JNum 1), Warning (JNum 1), FetchWork (JNum 123), Sleep]"
  by code_simp

section \<open>Rows per group\<close>

text \<open>
  C9. One group adds at most one row, and none when its detail cannot be fetched; so
  a run has at most as many rows as the record has groups. Of the summaries of a group
  only the first is read: two groups whose lists of summaries start with the same
  summary are treated alike.
\<close>

theorem at_most_one_row_per_group:
  "(group_body fetch_work g st = Inr st' \<longrightarrow>
      rows st' = rows st \<or> (\<exists>r. rows st' = rows st @ [r])) \<and>
   (fetchable g p \<and> fetch_work p = Inl e \<longrightarrow>
      (\<exists>st1. group_body fetch_work g st = Inr st1 \<and> rows st1 = rows st)) \<and>
   (main_loop fetch_work gs st = Inr st'' \<longrightarrow>
      length (rows st'') \<le> length (rows st) + length gs) \<and>
   (is_dict g \<and> is_dict g' \<and> field ''work-summary'' g = JList (s # rest) \<and>
    field ''work-summary'' g' = JList (s # rest') \<longrightarrow>
      group_body fetch_work g st = group_body fetch_work g' st)"
proof -
  have "group_body fetch_work g st = Inr st' \<longrightarrow>
      rows st' = rows st \<or> (\<exists>r. rows st' = rows st @ [r])"
    using group_body_rows by blast
  moreover have "fetchable g p \<and> fetch_work p = Inl e \<longrightarrow>
      (\<exists>st1. group_body fetch_work g st = Inr st1 \<and> rows st1 = rows st)"
    using group_body_fetch_fails [of g p fetch_work e st] by auto
  moreover have "main_loop fetch_work gs st = Inr st'' \<longrightarrow>
      length (rows st'') \<le> length (rows st) + length gs"
    using main_loop_rows by blast
  moreover have "is_dict g \<and> is_dict g' \<and> field ''work-summary'' g = JList (s # rest) \<and>
    field ''work-summary'' g' = JList (s # rest') \<longrightarrow>
      group_body fetch_work g st = group_body fetch_work g' st"
    using group_body_first_summary by blast
  ultimately show ?thesis
    by blast
qed

theorem at_most_one_row_per_group_witness:
  "group_body flaky_fetch group_two empty_state =
     Inr \<lparr>rows = [sample_row], events = [FetchWork (JNum 123), Sleep]\<rparr> \<and>
   fetchable group_one (JNum 1) \<and> flaky_fetch (JNum 1) = Inl RequestError \<and>
   (map_sum id rows (group_body flaky_fetch group_one empty_state)) = Inr [] \<and>
   main_loop flaky_fetch [group_one, group_two] empty_state =
     Inr \<lparr>rows = [sample_row],
          events = [FetchWork (JNum 1), Warning (JNum 1), FetchWork (JNum 123), Sleep]\<rparr> \<and>
   is_dict group_two \<and> is_dict group_two_first_only \<and>
   field ''work-summary'' group_two = JList [sample_summary, padded_summary] \<and>
   field ''work-summary'' group_two_first_only = JList [sample_summary] \<and>
   group_body flaky_fetch group_two empty_state =
     group_body flaky_fetch group_two_first_only empty_state"
proof -
  have b: "group_body flaky_fetch group_two empty_state =
     Inr \<lparr>rows = [sample_row], events = [FetchWork (JNum 123), Sleep]\<rparr>"
    by code_simp
  have f: "fetchable group_one (JNum 1)" "flaky_fetch (JNum 1) = Inl RequestError"
    "map_sum id rows (group_body flaky_fetch group_one empty_state) = Inr []"
    by code_simp+
  have l: "main_loop flaky_fetch [group_one, group_two] empty_state =
     Inr \<lparr>rows = [sample_row],
          events = [FetchWork (JNum 1), Warning (JNum 1), FetchWork (JNum 123), Sleep]\<rparr>"
    by code_simp
  have d: "is_dict group_two" "is_dict group_two_first_only"
    "field ''work-summary'' group_two = JList [sample_summary, padded_summary]"
    "field ''work-summary'' group_two_first_only = JList [sample_summary]"
    by code_simp+
  from at_most_one_row_per_group
         [of flaky_fetch group_two empty_state _ _ _ _ _ group_two_first_only sample_summary
             "[padded_summary]" "[]"]
       b f l d
  show ?thesis
    by simp
qed

section \<open>Sanitizing\<close>

text \<open>
  C7 on the code. Line 146 and line 156 pass the title and the venue through
  \<^verbatim>\<open>sanitize_markdown\<close>; lines 147-154 and line 157 do not do so for the authors and
  the year. A line break in a contributor's name and the blanks around a year reach
  the row as they are, where \<^verbatim>\<open>sanitize_markdown\<close> would have given
  \<^verbatim>\<open>J. Doe\<close> and \<^verbatim>\<open>2020\<close>.
\<close>

theorem authors_and_year_not_sanitized:
  "main_row messy_detail bare_summary =
     Inr \<lparr> row_title = ''T'', row_authors = ''J.'' @ [CHR 0x0A] @ ''Doe'', row_journal = '''',
           row_year = JStr '' 2020 '', row_doi = '''', row_link = JStr '''' \<rparr> \<and>
   sanitize_markdown (JStr (''J.'' @ [CHR 0x0A] @ ''Doe'')) = ''J. Doe'' \<and>
   sanitize_markdown (JStr '' 2020 '') = ''2020''"
  by code_simp

section \<open>The order of the rows\<close>







end
